theory Spec2Isabelle
  imports Complex_Main "HOL-Library.Monad_Syntax"
begin

section \<open>Run-time values and errors\<close>

text \<open>
  The replacement values handed to the template engine are Python objects. The embedding
  covers plain data: \<open>None\<close>, booleans, integers, strings, safe strings (instances of
  \<open>Basesafestring\<close>), lists, tuples, insertion-ordered dictionaries keyed by integers or
  strings (an association list of distinct keys), and instances of a plain user class, given
  by the text that \<open>repr\<close> and \<open>str\<close> print for them and by their attributes that are
  values of the embedding. Bound methods are not values of the embedding.

  A character stands for a Unicode code point below 256; text with other code points is
  not covered.
\<close>

datatype safety = HTMLsafe | URLsafe

datatype dkey = KInt int | KStr string

datatype pyval =
    PNone
  | PBool bool
  | PInt int
  | PStr string
  | PSafe safety string
  | PList "pyval list"
  | PTuple "pyval list"
  | PDict "(dkey \<times> pyval) list"
  | PObj string "(string \<times> pyval) list"

text \<open>
  The scope classes of the module, as named in its syntax error messages, and the messages
  themselves in structured form.
\<close>

datatype scope_cls = ClsTemplate | ClsTemplateLoop | ClsTemplateConditional
  | ClsTemplateConditionalPresence

datatype syntax_msg =
    ClosedTooMany nat
  | LeftOpenScopes nat
  | UnknownFunction string
  | TriedToClose scope_cls scope_cls
  | ExpectedOpenScope scope_cls scope_cls
  | ElifAfterElse
  | OnlyOneElse
  | InvalidTagSyntax string
  | LoopTagNotValid string
  | InvalidArgumentSyntax

text \<open>
  Exceptions are values. The \<open>Template...\<close> constructors are the module's own error
  classes; the others are the built-in exceptions that the module raises or lets through.
  \<open>KeyError\<close> stands for a \<open>KeyError\<close> that carries its key, as every failed lookup
  raises it. \<open>Unmodelled\<close> is not an exception of Python: it marks the places where the
  outcome lies outside the embedding (a bound method or another object that is not a value
  here, text handed to the host language's \<open>eval\<close> beyond literals, a template loaded
  through the parser cache).
\<close>

datatype error =
    TemplateKeyError string
  | TemplateNameError
  | TemplateValueError
  | TemplateTypeError
  | TemplateSyntaxError syntax_msg
  | TemplateReadError
  | KeyError
  | IndexError
  | AttributeError
  | TypeError
  | ValueError
  | NameError
  | UnboundLocalError
  | SyntaxError
  | OSError
  | UnicodeDecodeError
  | Unmodelled

type_synonym 'a result = "error + 'a"

type_synonym env = "string \<Rightarrow> pyval option"

subsection \<open>Built-in operations on values\<close>

definition lookup_key :: "dkey \<Rightarrow> (dkey \<times> pyval) list \<Rightarrow> pyval result" where
  "lookup_key k kvs = (case map_of kvs k of None \<Rightarrow> Inl KeyError | Some v \<Rightarrow> Inr v)"

definition seq_index :: "'a list \<Rightarrow> nat \<Rightarrow> 'a result" where
  "seq_index xs n = (if n < length xs then Inr (xs ! n) else Inl IndexError)"

text \<open>\<open>haystack[n]\<close> for a non-negative integer \<open>n\<close>.\<close>

fun getitem_int :: "pyval \<Rightarrow> nat \<Rightarrow> pyval result" where
  "getitem_int (PList xs) n = seq_index xs n"
| "getitem_int (PTuple xs) n = seq_index xs n"
| "getitem_int (PStr s) n = map_sum id (\<lambda>c. PStr [c]) (seq_index s n)"
| "getitem_int (PSafe c s) n = map_sum id (\<lambda>c. PStr [c]) (seq_index s n)"
| "getitem_int (PDict kvs) n = lookup_key (KInt (int n)) kvs"
| "getitem_int _ n = Inl TypeError"

text \<open>\<open>haystack[s]\<close> for a string \<open>s\<close>.\<close>

fun getitem_str :: "pyval \<Rightarrow> string \<Rightarrow> pyval result" where
  "getitem_str (PDict kvs) s = lookup_key (KStr s) kvs"
| "getitem_str _ s = Inl TypeError"

text \<open>
  \<open>getattr(obj, s)\<close>. The data attributes of the built-in types are values: \<open>real\<close>,
  \<open>imag\<close>, \<open>numerator\<close> and \<open>denominator\<close> of an integer or boolean (all of them
  integers). The other names that the built-in types define are methods, and every object
  answers to special names of the form \<open>__name__\<close>: what \<open>getattr\<close> returns for them is not
  a value of the embedding. The attributes of the safe string classes are unknown, their
  module not being among the sources. Any other name raises \<open>AttributeError\<close>.
\<close>

definition int_methods :: "string list" where
  "int_methods = [''as_integer_ratio'', ''bit_count'', ''bit_length'', ''conjugate'',
     ''from_bytes'', ''is_integer'', ''to_bytes'']"

definition str_methods :: "string list" where
  "str_methods = [''capitalize'', ''casefold'', ''center'', ''count'', ''encode'', ''endswith'',
     ''expandtabs'', ''find'', ''format'', ''format_map'', ''index'', ''isalnum'', ''isalpha'',
     ''isascii'', ''isdecimal'', ''isdigit'', ''isidentifier'', ''islower'', ''isnumeric'',
     ''isprintable'', ''isspace'', ''istitle'', ''isupper'', ''join'', ''ljust'', ''lower'',
     ''lstrip'', ''maketrans'', ''partition'', ''removeprefix'', ''removesuffix'', ''replace'',
     ''rfind'', ''rindex'', ''rjust'', ''rpartition'', ''rsplit'', ''rstrip'', ''split'',
     ''splitlines'', ''startswith'', ''strip'', ''swapcase'', ''title'', ''translate'', ''upper'',
     ''zfill'']"

definition list_methods :: "string list" where
  "list_methods = [''append'', ''clear'', ''copy'', ''count'', ''extend'', ''index'', ''insert'',
     ''pop'', ''remove'', ''reverse'', ''sort'']"

definition tuple_methods :: "string list" where
  "tuple_methods = [''count'', ''index'']"

definition dict_methods :: "string list" where
  "dict_methods = [''clear'', ''copy'', ''fromkeys'', ''get'', ''items'', ''keys'', ''pop'',
     ''popitem'', ''setdefault'', ''update'', ''values'']"

definition is_special_name :: "string \<Rightarrow> bool" where
  "is_special_name s = (4 < length s \<and> take 2 s = ''__'' \<and> take 2 (rev s) = ''__'')"

definition int_attr :: "int \<Rightarrow> string \<Rightarrow> pyval result" where
  "int_attr i s =
     (if s = ''real'' \<or> s = ''numerator'' then Inr (PInt i)
      else if s = ''imag'' then Inr (PInt 0)
      else if s = ''denominator'' then Inr (PInt 1)
      else if s \<in> set int_methods then Inl Unmodelled
      else Inl AttributeError)"

definition method_or_missing :: "string list \<Rightarrow> string \<Rightarrow> pyval result" where
  "method_or_missing methods s = (if s \<in> set methods then Inl Unmodelled else Inl AttributeError)"

definition getattr :: "pyval \<Rightarrow> string \<Rightarrow> pyval result" where
  "getattr obj s =
     (if is_special_name s then Inl Unmodelled
      else (case obj of
              PNone \<Rightarrow> Inl AttributeError
            | PBool b \<Rightarrow> int_attr (if b then 1 else 0) s
            | PInt i \<Rightarrow> int_attr i s
            | PStr t \<Rightarrow> method_or_missing str_methods s
            | PSafe c t \<Rightarrow> Inl Unmodelled
            | PList xs \<Rightarrow> method_or_missing list_methods s
            | PTuple xs \<Rightarrow> method_or_missing tuple_methods s
            | PDict kvs \<Rightarrow> method_or_missing dict_methods s
            | PObj r attrs \<Rightarrow>
                (case map_of attrs s of None \<Rightarrow> Inl AttributeError | Some v \<Rightarrow> Inr v)))"

fun truthy :: "pyval \<Rightarrow> bool" where
  "truthy PNone = False"
| "truthy (PBool b) = b"
| "truthy (PInt i) = (i \<noteq> 0)"
| "truthy (PStr s) = (s \<noteq> [])"
| "truthy (PSafe c s) = (s \<noteq> [])"
| "truthy (PList xs) = (xs \<noteq> [])"
| "truthy (PTuple xs) = (xs \<noteq> [])"
| "truthy (PDict kvs) = (kvs \<noteq> [])"
| "truthy (PObj r attrs) = True"

definition key_val :: "dkey \<Rightarrow> pyval" where
  "key_val k = (case k of KInt i \<Rightarrow> PInt i | KStr s \<Rightarrow> PStr s)"

text \<open>\<open>len(v)\<close>: raises \<open>TypeError\<close> for a value without a length.\<close>

fun py_len :: "pyval \<Rightarrow> nat result" where
  "py_len (PStr s) = Inr (length s)"
| "py_len (PSafe c s) = Inr (length s)"
| "py_len (PList xs) = Inr (length xs)"
| "py_len (PTuple xs) = Inr (length xs)"
| "py_len (PDict kvs) = Inr (length kvs)"
| "py_len _ = Inl TypeError"

text \<open>\<open>iter(v)\<close>, as the list of the items it yields.\<close>

fun py_iter :: "pyval \<Rightarrow> pyval list result" where
  "py_iter (PStr s) = Inr (map (\<lambda>c. PStr [c]) s)"
| "py_iter (PSafe c s) = Inr (map (\<lambda>c. PStr [c]) s)"
| "py_iter (PList xs) = Inr xs"
| "py_iter (PTuple xs) = Inr xs"
| "py_iter (PDict kvs) = Inr (map (key_val \<circ> fst) kvs)"
| "py_iter _ = Inl TypeError"

subsection \<open>Text of a value\<close>

fun string_of_nat :: "nat \<Rightarrow> string" where
  "string_of_nat n =
     (if n < 10 then [''0123456789'' ! n]
      else string_of_nat (n div 10) @ [''0123456789'' ! (n mod 10)])"

declare string_of_nat.simps [simp del]

definition string_of_int :: "int \<Rightarrow> string" where
  "string_of_int i = (if i < 0 then CHR ''-'' # string_of_nat (nat (- i)) else string_of_nat (nat i))"

definition join :: "string \<Rightarrow> string list \<Rightarrow> string" where
  "join sep xs = (case xs of [] \<Rightarrow> [] | y # ys \<Rightarrow> y @ concat (map (\<lambda>z. sep @ z) ys))"

text \<open>
  \<open>repr\<close> of a string: double quotes when the text holds a single quote and no double
  quote, single quotes otherwise; the quote in use and the backslash are escaped, tab,
  line feed and carriage return are written \<open>\t\<close>, \<open>\n\<close>, \<open>\r\<close>, and every other
  character that is not printable as \<open>\xNN\<close>.
\<close>

definition hex_lower :: "nat \<Rightarrow> char" where
  "hex_lower n = ''0123456789abcdef'' ! (n mod 16)"

definition isprintable :: "char \<Rightarrow> bool" where
  "isprintable c =
     (let n = (of_char c :: nat) in (32 \<le> n \<and> n \<le> 126) \<or> (161 \<le> n \<and> n \<noteq> 173))"

definition repr_char :: "char \<Rightarrow> char \<Rightarrow> string" where
  "repr_char q c =
     (if c = q \<or> c = CHR 0x5C then [CHR 0x5C, c]
      else if c = CHR 0x09 then [CHR 0x5C, CHR ''t'']
      else if c = CHR 0x0A then [CHR 0x5C, CHR ''n'']
      else if c = CHR 0x0D then [CHR 0x5C, CHR ''r'']
      else if \<not> isprintable c
        then [CHR 0x5C, CHR ''x'', hex_lower (of_char c div 16), hex_lower (of_char c)]
      else [c])"

definition str_repr :: "string \<Rightarrow> string" where
  "str_repr s =
     (let q = (if CHR 0x27 \<in> set s \<and> CHR 0x22 \<notin> set s then CHR 0x22 else CHR 0x27)
      in [q] @ concat (map (repr_char q) s) @ [q])"

text \<open>
  \<open>repr\<close> and \<open>str\<close> of a value. The \<open>repr\<close> of a safe string is unknown, its module not
  being among the sources; it is taken to be that of its text.
\<close>

definition key_repr :: "dkey \<Rightarrow> string" where
  "key_repr k = (case k of KInt i \<Rightarrow> string_of_int i | KStr s \<Rightarrow> str_repr s)"

fun py_repr :: "pyval \<Rightarrow> string"
and py_repr_list :: "pyval list \<Rightarrow> string list"
and py_repr_items :: "(dkey \<times> pyval) list \<Rightarrow> string list" where
  "py_repr PNone = ''None''"
| "py_repr (PBool b) = (if b then ''True'' else ''False'')"
| "py_repr (PInt i) = string_of_int i"
| "py_repr (PStr s) = str_repr s"
| "py_repr (PSafe c s) = str_repr s"
| "py_repr (PList xs) = ''['' @ join '', '' (py_repr_list xs) @ '']''"
| "py_repr (PTuple xs) =
     ''('' @ join '', '' (py_repr_list xs) @ (if length xs = 1 then '',)'' else '')'')"
| "py_repr (PDict kvs) = ''{'' @ join '', '' (py_repr_items kvs) @ ''}''"
| "py_repr (PObj r attrs) = r"
| "py_repr_list [] = []"
| "py_repr_list (x # xs) = py_repr x # py_repr_list xs"
| "py_repr_items [] = []"
| "py_repr_items ((k, v) # kvs) =
     (key_repr k @ '': '' @ py_repr v) # py_repr_items kvs"

definition py_str :: "pyval \<Rightarrow> string" where
  "py_str v = (case v of PStr s \<Rightarrow> s | PSafe c s \<Rightarrow> s | _ \<Rightarrow> py_repr v)"


subsection \<open>Exception classes\<close>

text \<open>
  Which handler catches which exception follows the class hierarchy of the module:
  \<open>TemplateTypeError\<close> derives from \<open>TypeError\<close>, \<open>TemplateValueError\<close> from
  \<open>ValueError\<close>, \<open>TemplateReadError\<close> from \<open>IOError\<close> (which is \<open>OSError\<close>),
  \<open>KeyError\<close> and \<open>IndexError\<close> from \<open>LookupError\<close>, \<open>UnboundLocalError\<close> from
  \<open>NameError\<close>; \<open>TemplateKeyError\<close>, \<open>TemplateNameError\<close> and \<open>TemplateSyntaxError\<close>
  derive from the module's \<open>Error\<close> only.
\<close>

definition is_LookupError :: "error \<Rightarrow> bool" where
  "is_LookupError e = (e = KeyError \<or> e = IndexError)"

definition is_TypeError :: "error \<Rightarrow> bool" where
  "is_TypeError e = (e = TypeError \<or> e = TemplateTypeError)"

definition is_IOError :: "error \<Rightarrow> bool" where
  "is_IOError e = (e = OSError \<or> e = TemplateReadError)"

definition is_NameError :: "error \<Rightarrow> bool" where
  "is_NameError e = (e = NameError \<or> e = UnboundLocalError)"

fun is_TemplateKeyError :: "error \<Rightarrow> bool" where
  "is_TemplateKeyError (TemplateKeyError n) = True"
| "is_TemplateKeyError _ = False"

section \<open>Text helpers\<close>

definition ord :: "char \<Rightarrow> nat" where
  "ord c = of_char c"

definition is_digit :: "char \<Rightarrow> bool" where
  "is_digit c = (48 \<le> ord c \<and> ord c \<le> 57)"

definition is_alpha :: "char \<Rightarrow> bool" where
  "is_alpha c = ((97 \<le> ord c \<and> ord c \<le> 122) \<or> (65 \<le> ord c \<and> ord c \<le> 90))"

text \<open>
  The class \<open>\w\<close> of the regular expressions (the patterns are text patterns, so the class
  is Unicode's): the ASCII letters and digits, the underscore, and beyond ASCII the letters
  and the numeric characters of the code points below 256.
\<close>

definition is_word :: "char \<Rightarrow> bool" where
  "is_word c = (is_alpha c \<or> is_digit c \<or> c = CHR ''_''
     \<or> ord c = 170 \<or> ord c = 178 \<or> ord c = 179 \<or> ord c = 181 \<or> ord c = 185 \<or> ord c = 186
     \<or> (188 \<le> ord c \<and> ord c \<le> 190)
     \<or> (192 \<le> ord c \<and> ord c \<noteq> 215 \<and> ord c \<noteq> 247))"

definition is_word_dash :: "char \<Rightarrow> bool" where
  "is_word_dash c = (is_word c \<or> c = CHR ''-'')"

text \<open>
  White space as \<open>\s\<close>, \<open>str.split\<close> and \<open>str.strip\<close> see it: blank, the controls 9 to
  13, the separators 28 to 31, next line (133) and the no-break space (160).
\<close>

definition is_space :: "char \<Rightarrow> bool" where
  "is_space c = ((9 \<le> ord c \<and> ord c \<le> 13) \<or> (28 \<le> ord c \<and> ord c \<le> 32)
     \<or> ord c = 133 \<or> ord c = 160)"

text \<open>
  \<open>str.isdigit\<close>: the text is not empty and each character is a digit of Unicode, which
  below 256 are the decimal digits and the superscripts two, three (178, 179) and one (185).
\<close>

definition isdigit :: "string \<Rightarrow> bool" where
  "isdigit s = (s \<noteq> [] \<and> list_all (\<lambda>c. is_digit c \<or> ord c = 178 \<or> ord c = 179 \<or> ord c = 185) s)"

definition digit_val :: "char \<Rightarrow> nat" where
  "digit_val c = ord c - 48"

definition nat_of_digits :: "string \<Rightarrow> nat" where
  "nat_of_digits s = foldl (\<lambda>n c. 10 * n + digit_val c) 0 s"

text \<open>
  \<open>int(s)\<close> for a text \<open>s\<close> for which \<open>str.isdigit\<close> holds: the conversion raises
  \<open>ValueError\<close> when a character is not a decimal digit, and when the text has more
  digits than the interpreter converts (\<open>sys.int_info.default_max_str_digits\<close>, 4300;
  leading zeros count).
\<close>

definition max_str_digits :: nat where
  "max_str_digits = 4300"

definition int_of_digits :: "string \<Rightarrow> nat result" where
  "int_of_digits s =
     (if list_all is_digit s \<and> length s \<le> max_str_digits then Inr (nat_of_digits s)
      else Inl ValueError)"

definition strip :: "string \<Rightarrow> string" where
  "strip s = rev (dropWhile is_space (rev (dropWhile is_space s)))"

text \<open>\<open>s.split(sep)\<close> for a one-character separator: empty fields are kept.\<close>

fun split_on :: "char \<Rightarrow> string \<Rightarrow> string list" where
  "split_on sep [] = [[]]"
| "split_on sep (c # cs) =
     (if c = sep then [] # split_on sep cs
      else (case split_on sep cs of [] \<Rightarrow> [[c]] | w # ws \<Rightarrow> (c # w) # ws))"

text \<open>\<open>s.split()\<close>: the maximal runs of non-blank characters.\<close>

fun split_ws_aux :: "string \<Rightarrow> string \<Rightarrow> string list" where
  "split_ws_aux cur [] = (if cur = [] then [] else [rev cur])"
| "split_ws_aux cur (c # cs) =
     (if is_space c then (if cur = [] then split_ws_aux [] cs else rev cur # split_ws_aux [] cs)
      else split_ws_aux (c # cur) cs)"

definition split_ws :: "string \<Rightarrow> string list" where
  "split_ws s = split_ws_aux [] s"

section \<open>Template tags\<close>

record TemplateTag =
  name :: string
  indices :: "string list"
  tag_functions :: "string list"

text \<open>\<open>TemplateTag.__str__\<close>\<close>

definition tag_str :: "TemplateTag \<Rightarrow> string" where
  "tag_str t = ''['' @ name t @ concat (map (\<lambda>i. '':'' @ i) (indices t))
     @ concat (map (\<lambda>f. ''|'' @ f) (tag_functions t)) @ '']''"

text \<open>\<open>TemplateTag._GetIndex\<close>\<close>

definition GetIndex :: "pyval \<Rightarrow> string \<Rightarrow> pyval result" where
  "GetIndex haystack needle =
     (let r =
        (if isdigit needle then
           (case int_of_digits needle of
              Inl e \<Rightarrow> Inl e
            | Inr n \<Rightarrow>
                (case getitem_int haystack n of
                   Inl e \<Rightarrow> if e = KeyError then getitem_str haystack needle else Inl e
                 | Inr v \<Rightarrow> Inr v))
         else
           (case getitem_str haystack needle of
              Inl e \<Rightarrow> if e = KeyError \<or> is_TypeError e then getattr haystack needle else Inl e
            | Inr v \<Rightarrow> Inr v))
      in case r of
           Inl e \<Rightarrow> if e = AttributeError \<or> is_LookupError e
                    then Inl (TemplateKeyError needle) else Inl e
         | Inr v \<Rightarrow> Inr v)"

fun reduce_indices :: "pyval \<Rightarrow> string list \<Rightarrow> pyval result" where
  "reduce_indices v [] = Inr v"
| "reduce_indices v (i # is) =
     (case GetIndex v i of Inl e \<Rightarrow> Inl e | Inr v' \<Rightarrow> reduce_indices v' is)"

text \<open>\<open>TemplateTag.GetValue\<close>\<close>

definition GetValue :: "TemplateTag \<Rightarrow> env \<Rightarrow> pyval result" where
  "GetValue t replacements =
     (case (case replacements (name t) of
              None \<Rightarrow> Inl KeyError
            | Some v \<Rightarrow> reduce_indices v (indices t)) of
        Inl e \<Rightarrow> if e = KeyError then Inl TemplateNameError else Inl e
      | Inr v \<Rightarrow> Inr v)"


section \<open>Tag functions\<close>

text \<open>
  The module constant \<open>TAG_FUNCTIONS\<close> is a mutable dictionary from names to Python
  callables, looked up at render time (\<open>Parser.RegisterFunction\<close> may replace entries). A
  callable takes its positional arguments and raises, returns a value, or returns another
  callable (a closure built from its arguments). The renderers below take the registry
  that is current at render time as their first argument.
\<close>

datatype callable = Callable "pyval list \<Rightarrow> error + (pyval + callable)"

type_synonym registry = "string \<Rightarrow> callable option"

definition call :: "callable \<Rightarrow> pyval list \<Rightarrow> error + (pyval + callable)" where
  "call c args = (case c of Callable f \<Rightarrow> f args)"

text \<open>A Python function of exactly one positional parameter.\<close>

definition unary :: "(pyval \<Rightarrow> pyval result) \<Rightarrow> callable" where
  "unary f = Callable (\<lambda>args. case args of
       [v] \<Rightarrow> (case f v of Inl e \<Rightarrow> Inl e | Inr r \<Rightarrow> Inr (Inl r))
     | _ \<Rightarrow> Inl TypeError)"

text \<open>
  \<open>TAG_FUNCTIONS[func](value)\<close>: the lookup raises \<open>KeyError\<close> for an unknown name. A
  result that is itself a callable is not a value of the embedding.
\<close>

definition call_registered :: "registry \<Rightarrow> string \<Rightarrow> pyval \<Rightarrow> pyval result" where
  "call_registered reg func v =
     (case reg func of
        None \<Rightarrow> Inl KeyError
      | Some c \<Rightarrow> (case call c [v] of
                    Inl e \<Rightarrow> Inl e
                  | Inr (Inl r) \<Rightarrow> Inr r
                  | Inr (Inr c') \<Rightarrow> Inl Unmodelled))"

text \<open>
  \<open>TAG_FUNCTIONS[func](*args)(value)\<close>: calling a plain value raises \<open>TypeError\<close>.
\<close>

definition call_closure :: "registry \<Rightarrow> string \<Rightarrow> pyval list \<Rightarrow> pyval \<Rightarrow> pyval result" where
  "call_closure reg func args v =
     (case reg func of
        None \<Rightarrow> Inl KeyError
      | Some c \<Rightarrow> (case call c args of
                    Inl e \<Rightarrow> Inl e
                  | Inr (Inl r) \<Rightarrow> Inl TypeError
                  | Inr (Inr c') \<Rightarrow> (case call c' [v] of
                                      Inl e \<Rightarrow> Inl e
                                    | Inr (Inl r) \<Rightarrow> Inr r
                                    | Inr (Inr c'') \<Rightarrow> Inl Unmodelled)))"

text \<open>
  \<open>FUNC_CLOSURE.match(func)\<close> for the pattern \<open>(\w+)\((.*)\)\<close>: a word, an opening
  parenthesis, and the text up to the last closing parenthesis of the same line.
\<close>

definition FUNC_CLOSURE_match :: "string \<Rightarrow> (string \<times> string) option" where
  "FUNC_CLOSURE_match func =
     (let nm = takeWhile is_word func; rest = dropWhile is_word func in
      if nm = [] then None
      else (case rest of
              [] \<Rightarrow> None
            | c # r \<Rightarrow>
                if c \<noteq> CHR ''('' then None
                else (let line = takeWhile (\<lambda>x. x \<noteq> CHR 0x0A) r in
                      if CHR '')'' \<in> set line
                      then Some (nm, rev (tl (dropWhile (\<lambda>x. x \<noteq> CHR '')'') (rev line))))
                      else None)))"

text \<open>
  \<open>eval(args + ',')\<close> on the argument text of a closure. The embedding evaluates a
  comma-separated list of literals, each with blanks and tabs around it: decimal integers
  (a literal with a leading zero that is not zero is a \<open>SyntaxError\<close>), \<open>True\<close>,
  \<open>False\<close>, \<open>None\<close>, and quoted text of printable ASCII characters without the quote
  and without backslash. Any other text is outside the embedding.
\<close>

definition strip_blanks :: "string \<Rightarrow> string" where
  "strip_blanks s =
     rev (dropWhile (\<lambda>c. c = CHR '' '' \<or> c = CHR 0x09)
       (rev (dropWhile (\<lambda>c. c = CHR '' '' \<or> c = CHR 0x09) s)))"

definition eval_literal :: "string \<Rightarrow> pyval result" where
  "eval_literal s =
     (if s \<noteq> [] \<and> list_all is_digit s then
        (if max_str_digits < length s then Inl Unmodelled
         else if hd s = CHR ''0'' \<and> \<not> list_all (\<lambda>c. c = CHR ''0'') s then Inl SyntaxError
         else Inr (PInt (int (nat_of_digits s))))
      else if s = ''True'' then Inr (PBool True)
      else if s = ''False'' then Inr (PBool False)
      else if s = ''None'' then Inr PNone
      else if 2 \<le> length s \<and> (hd s = CHR 0x27 \<or> hd s = CHR 0x22) \<and> last s = hd s
              \<and> list_all (\<lambda>c. 32 \<le> ord c \<and> ord c \<le> 126 \<and> c \<noteq> hd s \<and> c \<noteq> CHR 0x5C)
                    (butlast (tl s))
           then Inr (PStr (butlast (tl s)))
      else Inl Unmodelled)"

fun eval_literals :: "string list \<Rightarrow> pyval list result" where
  "eval_literals [] = Inr []"
| "eval_literals (s # ss) =
     (case eval_literal (strip_blanks s) of
        Inl e \<Rightarrow> Inl e
      | Inr v \<Rightarrow> (case eval_literals ss of Inl e \<Rightarrow> Inl e | Inr vs \<Rightarrow> Inr (v # vs)))"

definition eval_args :: "string \<Rightarrow> pyval list result" where
  "eval_args args = eval_literals (split_on CHR '','' args)"

text \<open>
  \<open>TemplateTag.ApplyFunction\<close>. The handler for \<open>SyntaxError\<close> formats the local variable
  \<open>args\<close> with \<open>%r\<close>: the variable is unbound when the function has no closure syntax
  (the handler then raises \<open>UnboundLocalError\<close>), it is the argument text while \<open>eval\<close>
  runs, and it is the tuple of evaluated arguments afterwards (formatting a tuple that
  does not have exactly one member raises \<open>TypeError\<close>). The handlers for \<open>TypeError\<close>
  and \<open>KeyError\<close> raise the module's errors.
\<close>

definition translate_error :: "error \<Rightarrow> error" where
  "translate_error e =
     (if is_TypeError e then TemplateTypeError
      else if e = KeyError then TemplateNameError
      else e)"

definition ApplyFunction :: "registry \<Rightarrow> string \<Rightarrow> pyval \<Rightarrow> pyval result" where
  "ApplyFunction reg func v =
     (case FUNC_CLOSURE_match func of
        None \<Rightarrow>
          (case call_registered reg func v of
             Inl e \<Rightarrow> if e = SyntaxError then Inl UnboundLocalError else Inl (translate_error e)
           | Inr v' \<Rightarrow> Inr v')
      | Some (fname, args) \<Rightarrow>
          (case (if strip args \<noteq> [] then eval_args args else Inr []) of
             Inl e \<Rightarrow>
               if e = SyntaxError then Inl (TemplateSyntaxError InvalidArgumentSyntax)
               else Inl (translate_error e)
           | Inr vs \<Rightarrow>
               (case call_closure reg fname vs v of
                  Inl e \<Rightarrow>
                    if e = SyntaxError
                    then (if length vs = 1 then Inl (TemplateSyntaxError InvalidArgumentSyntax)
                          else Inl TypeError)
                    else Inl (translate_error e)
                | Inr v' \<Rightarrow> Inr v')))"

fun apply_functions :: "registry \<Rightarrow> string list \<Rightarrow> pyval \<Rightarrow> pyval result" where
  "apply_functions reg [] v = Inr v"
| "apply_functions reg (f # fs) v =
     (case ApplyFunction reg f v of Inl e \<Rightarrow> Inl e | Inr v' \<Rightarrow> apply_functions reg fs v')"

text \<open>\<open>isinstance(value, Basesafestring)\<close>\<close>

fun is_Basesafestring :: "pyval \<Rightarrow> bool" where
  "is_Basesafestring (PSafe c s) = True"
| "is_Basesafestring _ = False"

text \<open>\<open>TemplateTag.Parse\<close>\<close>

definition Tag_Parse :: "registry \<Rightarrow> TemplateTag \<Rightarrow> env \<Rightarrow> string result" where
  "Tag_Parse reg t kwds =
     (case GetValue t kwds of
        Inl e \<Rightarrow>
          if is_TemplateKeyError e \<or> e = TemplateNameError then Inr (tag_str t) else Inl e
      | Inr v \<Rightarrow>
          (if tag_functions t \<noteq> [] then
             (case apply_functions reg (tag_functions t) v of
                Inl e \<Rightarrow> Inl e
              | Inr v' \<Rightarrow> Inr (py_str v'))
           else if \<not> is_Basesafestring v then
             (case call_registered reg ''default'' v of
                Inl e \<Rightarrow> Inl e
              | Inr v' \<Rightarrow> Inr (py_str v'))
           else Inr (py_str v)))"

text \<open>
  \<open>TemplateTag.Iterator\<close>: the functions are looked up in the registry directly, without
  the closure syntax and without the error translation of \<open>ApplyFunction\<close>.
\<close>

fun iterator_functions :: "registry \<Rightarrow> string list \<Rightarrow> pyval \<Rightarrow> pyval result" where
  "iterator_functions reg [] v = Inr v"
| "iterator_functions reg (f # fs) v =
     (case call_registered reg f v of Inl e \<Rightarrow> Inl e | Inr v' \<Rightarrow> iterator_functions reg fs v')"

definition Tag_Iterator :: "registry \<Rightarrow> TemplateTag \<Rightarrow> env \<Rightarrow> pyval list result" where
  "Tag_Iterator reg t kwds =
     (case GetValue t kwds of
        Inl e \<Rightarrow> if is_TemplateKeyError e then Inr [] else Inl e
      | Inr v \<Rightarrow>
          (case iterator_functions reg (tag_functions t) v of
             Inl e \<Rightarrow> Inl e
           | Inr v' \<Rightarrow> py_iter v'))"

subsection \<open>The initial registry\<close>

text \<open>
  Modelled from the spec: the module \<open>ext_lib.underdark.libs.safestring\<close>, which defines
  \<open>HTMLsafestring\<close> and \<open>URLqueryargumentsafestring\<close>, is not among the sources. Following
  the spec, \<open>HTMLsafestring('') + d\<close> HTML-escapes the text of \<open>d\<close> and marks the result
  HTML-safe, and is the identity on a value that is HTML-safe already; the \<open>url\<close> function
  escapes the text for a URL query argument and marks it URL-safe (the encoding of
  characters beyond ASCII is left open).
\<close>

fun HtmlEscape_char :: "char \<Rightarrow> string" where
  "HtmlEscape_char c =
     (if c = CHR ''&'' then ''&amp;''
      else if c = CHR ''<'' then ''&lt;''
      else if c = CHR ''>'' then ''&gt;''
      else if c = CHR 0x22 then ''&quot;''
      else if c = CHR 0x27 then ''&#39;''
      else [c])"

definition HtmlEscape :: "string \<Rightarrow> string" where
  "HtmlEscape s = concat (map HtmlEscape_char s)"

definition hex_digit :: "nat \<Rightarrow> char" where
  "hex_digit n = ''0123456789ABCDEF'' ! (n mod 16)"

definition UrlEscape_char :: "char \<Rightarrow> string" where
  "UrlEscape_char c =
     (if is_alpha c \<or> is_digit c \<or> c = CHR ''_'' \<or> c = CHR ''-'' \<or> c = CHR ''.'' \<or> c = CHR ''~''
      then [c]
      else [CHR ''%'', hex_digit (ord c div 16), hex_digit (ord c)])"

definition UrlEscape :: "string \<Rightarrow> string" where
  "UrlEscape s = concat (map UrlEscape_char s)"

definition html_add :: "pyval \<Rightarrow> pyval result" where
  "html_add d = (case d of
       PSafe HTMLsafe s \<Rightarrow> Inr (PSafe HTMLsafe s)
     | _ \<Rightarrow> Inr (PSafe HTMLsafe (HtmlEscape (py_str d))))"

definition url_safe :: "pyval \<Rightarrow> pyval result" where
  "url_safe d =
     (if list_all (\<lambda>c. ord c < 128) (py_str d) then Inr (PSafe URLsafe (UrlEscape (py_str d)))
      else Inl Unmodelled)"

text \<open>The remaining entries are built-in functions and methods of Python.\<close>

text \<open>
  \<open>d.items()\<close> and \<open>d.values()\<close>: of a value that is not a dictionary, the attribute is
  missing, or it is a value and calling it raises \<open>TypeError\<close>.
\<close>

definition call_attr :: "pyval \<Rightarrow> string \<Rightarrow> pyval result" where
  "call_attr d s = (case getattr d s of Inl e \<Rightarrow> Inl e | Inr v \<Rightarrow> Inl TypeError)"

definition fn_items :: "pyval \<Rightarrow> pyval result" where
  "fn_items d = (case d of
       PDict kvs \<Rightarrow> Inr (PList (map (\<lambda>(k, v). PTuple [key_val k, v]) kvs))
     | _ \<Rightarrow> call_attr d ''items'')"

definition fn_values :: "pyval \<Rightarrow> pyval result" where
  "fn_values d = (case d of
       PDict kvs \<Rightarrow> Inr (PList (map snd kvs))
     | _ \<Rightarrow> call_attr d ''values'')"

fun the_ints :: "pyval list \<Rightarrow> int list option" where
  "the_ints [] = Some []"
| "the_ints (PInt i # vs) = (case the_ints vs of None \<Rightarrow> None | Some is \<Rightarrow> Some (i # is))"
| "the_ints (v # vs) = None"

text \<open>
  \<open>sorted\<close> raises \<open>TypeError\<close> for a value that is not iterable; the embedding sorts
  sequences of integers and leaves other element types outside the fragment.
\<close>

definition fn_sorted :: "pyval \<Rightarrow> pyval result" where
  "fn_sorted d =
     (case py_iter d of
        Inl e \<Rightarrow> Inl e
      | Inr vs \<Rightarrow> (case the_ints vs of
                     None \<Rightarrow> Inl Unmodelled
                   | Some is \<Rightarrow> Inr (PList (map PInt (sort is)))))"

definition fn_len :: "pyval \<Rightarrow> pyval result" where
  "fn_len d = (case py_len d of Inl e \<Rightarrow> Inl e | Inr n \<Rightarrow> Inr (PInt (int n)))"

definition TAG_FUNCTIONS :: registry where
  "TAG_FUNCTIONS =
     [''default'' \<mapsto> unary html_add,
      ''html'' \<mapsto> unary html_add,
      ''raw'' \<mapsto> unary Inr,
      ''url'' \<mapsto> unary url_safe,
      ''items'' \<mapsto> unary fn_items,
      ''values'' \<mapsto> unary fn_values,
      ''sorted'' \<mapsto> unary fn_sorted,
      ''len'' \<mapsto> unary fn_len]"


section \<open>Lexing of tags and directives\<close>

text \<open>
  The pattern \<open>TAG\<close> (the same grammar in \<open>Template\<close> and in \<open>TemplateTag\<close>): an opening
  bracket, a name of word characters, any number of indices \<open>:index\<close>, any number of
  functions \<open>|name\<close> or \<open>|name(arguments)\<close> whose arguments hold no parenthesis, and a
  closing bracket. Every repetition is greedy, and each part is followed by a character
  that the part itself cannot hold, so no shorter choice succeeds where the longest fails
  and the match is found in one pass.
\<close>

function scan_indices :: "string \<Rightarrow> string \<times> string" where
  "scan_indices [] = ([], [])"
| "scan_indices (c # r) =
     (if c = CHR '':'' \<and> takeWhile is_word_dash r \<noteq> [] then
        (case scan_indices (dropWhile is_word_dash r) of
           (raw, rest) \<Rightarrow> (c # takeWhile is_word_dash r @ raw, rest))
      else ([], c # r))"
  by pat_completeness auto
termination
  apply (relation "measure length")
   apply simp
  apply (simp add: less_Suc_eq_le length_dropWhile_le)
  done

text \<open>The optional closure \<open>\([^()]*?\)\<close> at the head of the text.\<close>

definition not_paren :: "char \<Rightarrow> bool" where
  "not_paren x = (x \<noteq> CHR ''('' \<and> x \<noteq> CHR '')'')"

definition scan_closure :: "string \<Rightarrow> string \<times> string" where
  "scan_closure s =
     (case s of
        [] \<Rightarrow> ([], s)
      | c # r \<Rightarrow>
          if c \<noteq> CHR ''('' then ([], s)
          else (case dropWhile not_paren r of
                  [] \<Rightarrow> ([], s)
                | d # rest \<Rightarrow>
                    if d = CHR '')'' then (c # takeWhile not_paren r @ [d], rest)
                    else ([], s)))"

lemma length_scan_closure: "length (snd (scan_closure s)) \<le> length s"
proof (cases s)
  case Nil
  then show ?thesis by (simp add: scan_closure_def)
next
  case (Cons c r)
  show ?thesis
  proof (cases "dropWhile not_paren r")
    case Nil
    with Cons show ?thesis by (simp add: scan_closure_def del: dropWhile_eq_Nil_conv)
  next
    case (Cons d rest)
    have "length (dropWhile not_paren r) \<le> length r"
      by (rule length_dropWhile_le)
    with Cons have "length rest \<le> length r" by simp
    with Cons \<open>s = c # r\<close> show ?thesis by (simp add: scan_closure_def)
  qed
qed

lemma scan_closure_shorter:
  assumes "scan_closure (dropWhile P r) = (clo, r')"
  shows "length r' \<le> length r"
proof -
  have "length (snd (scan_closure (dropWhile P r))) \<le> length (dropWhile P r)"
    by (rule length_scan_closure)
  also have "\<dots> \<le> length r" by (rule length_dropWhile_le)
  finally show ?thesis using assms by simp
qed

function scan_functions :: "string \<Rightarrow> string \<times> string" where
  "scan_functions [] = ([], [])"
| "scan_functions (c # r) =
     (if c = CHR ''|'' \<and> takeWhile is_word_dash r \<noteq> [] then
        (case scan_closure (dropWhile is_word_dash r) of
           (clo, r') \<Rightarrow>
             (case scan_functions r' of
                (raw, rest) \<Rightarrow> (c # takeWhile is_word_dash r @ clo @ raw, rest)))
      else ([], c # r))"
  by pat_completeness auto
termination
proof (relation "measure length")
  show "wf (measure length)" by simp
next
  fix c :: char and r x y :: string
  assume "(x, y) = scan_closure (dropWhile is_word_dash r)"
  then have "scan_closure (dropWhile is_word_dash r) = (x, y)" by simp
  then have "length y \<le> length r" by (rule scan_closure_shorter)
  then show "(y, c # r) \<in> measure length" by simp
qed

text \<open>
  \<open>TAG.match\<close> at the head of a text: the three groups (an optional group that did not
  take part is \<open>None\<close> in Python and the empty text here; both are false where the
  groups are used) and the text after the match.
\<close>

definition TAG_match :: "string \<Rightarrow> ((string \<times> string \<times> string) \<times> string) option" where
  "TAG_match s =
     (case s of
        [] \<Rightarrow> None
      | c # r \<Rightarrow>
          if c \<noteq> CHR ''['' \<or> takeWhile is_word r = [] then None
          else (case scan_indices (dropWhile is_word r) of
                  (raw_indices, r1) \<Rightarrow>
                    (case scan_functions r1 of
                       (raw_functions, r2) \<Rightarrow>
                         (case r2 of
                            [] \<Rightarrow> None
                          | d # rest \<Rightarrow>
                              if d = CHR '']''
                              then Some ((takeWhile is_word r, raw_indices, raw_functions), rest)
                              else None))))"

text \<open>\<open>FUNC_FINDER.findall\<close> for the pattern \<open>\|([\w-]+(?:\([^()]*?\))?)\<close>.\<close>

function FUNC_FINDER_findall :: "string \<Rightarrow> string list" where
  "FUNC_FINDER_findall [] = []"
| "FUNC_FINDER_findall (c # r) =
     (if c = CHR ''|'' \<and> takeWhile is_word_dash r \<noteq> [] then
        (case scan_closure (dropWhile is_word_dash r) of
           (clo, r') \<Rightarrow> (takeWhile is_word_dash r @ clo) # FUNC_FINDER_findall r')
      else FUNC_FINDER_findall r)"
  by pat_completeness auto
termination
proof (relation "measure length")
  show "wf (measure length)" by simp
next
  fix c :: char and r x y :: string
  assume "(x, y) = scan_closure (dropWhile is_word_dash r)"
  then have "scan_closure (dropWhile is_word_dash r) = (x, y)" by simp
  then have "length y \<le> length r" by (rule scan_closure_shorter)
  then show "(y, c # r) \<in> measure length" by simp
next
  fix c :: char and r :: string
  show "(r, c # r) \<in> measure length" by simp
qed

text \<open>\<open>TemplateTag._GetFunctions\<close> and \<open>TemplateTag._GetIndices\<close>\<close>

definition GetFunctions :: "string \<Rightarrow> string list" where
  "GetFunctions raw_functions = (if raw_functions \<noteq> [] then FUNC_FINDER_findall raw_functions else [])"

definition GetIndices :: "string \<Rightarrow> string list" where
  "GetIndices raw_indices =
     (if raw_indices \<noteq> []
      then split_on CHR '':'' (dropWhile (\<lambda>c. c = CHR '':'') raw_indices)
      else [])"

text \<open>\<open>TemplateTag.FromString\<close>\<close>

definition FromString :: "string \<Rightarrow> TemplateTag result" where
  "FromString tag =
     (case TAG_match tag of
        None \<Rightarrow> Inl (TemplateSyntaxError (InvalidTagSyntax tag))
      | Some ((nm, raw_indices, raw_functions), rest) \<Rightarrow>
          Inr \<lparr>name = nm, indices = GetIndices raw_indices,
               tag_functions = GetFunctions raw_functions\<rparr>)"

lemma length_scan_indices: "length (snd (scan_indices s)) \<le> length s"
proof (induction s rule: scan_indices.induct)
  case 1
  then show ?case by simp
next
  case (2 c r)
  show ?case
  proof (cases "c = CHR '':'' \<and> takeWhile is_word_dash r \<noteq> []")
    case False
    then show ?thesis by auto
  next
    case True
    obtain raw rest where raw: "scan_indices (dropWhile is_word_dash r) = (raw, rest)"
      by (cases "scan_indices (dropWhile is_word_dash r)")
    from 2 [OF True] raw have "length rest \<le> length (dropWhile is_word_dash r)" by simp
    also have "\<dots> \<le> length r" by (rule length_dropWhile_le)
    finally show ?thesis using True raw by simp
  qed
qed

lemma length_scan_functions: "length (snd (scan_functions s)) \<le> length s"
proof (induction s rule: scan_functions.induct)
  case 1
  then show ?case by simp
next
  case (2 c r)
  show ?case
  proof (cases "c = CHR ''|'' \<and> takeWhile is_word_dash r \<noteq> []")
    case False
    then show ?thesis by auto
  next
    case True
    obtain clo r' where clo: "scan_closure (dropWhile is_word_dash r) = (clo, r')"
      by (cases "scan_closure (dropWhile is_word_dash r)")
    obtain raw rest where raw: "scan_functions r' = (raw, rest)"
      by (cases "scan_functions r'")
    from 2 [OF True clo [symmetric]] raw have "length rest \<le> length r'" by simp
    moreover from clo have "length r' \<le> length r" by (rule scan_closure_shorter)
    ultimately show ?thesis using True clo raw by simp
  qed
qed

lemma TAG_match_shorter:
  assumes "TAG_match s = Some (g, rest)"
  shows "length rest < length s"
proof (cases s)
  case Nil
  with assms show ?thesis by (simp add: TAG_match_def)
next
  case (Cons c r)
  obtain ri r1 where ri: "scan_indices (dropWhile is_word r) = (ri, r1)"
    by (cases "scan_indices (dropWhile is_word r)")
  obtain rf r2 where rf: "scan_functions r1 = (rf, r2)"
    by (cases "scan_functions r1")
  have "length r1 \<le> length (dropWhile is_word r)"
    using length_scan_indices [of "dropWhile is_word r"] ri by simp
  also have "\<dots> \<le> length r" by (rule length_dropWhile_le)
  finally have a: "length r1 \<le> length r" .
  have b: "length r2 \<le> length r1"
    using length_scan_functions [of r1] rf by simp
  from assms Cons ri rf have "r2 \<noteq> []"
    by (auto simp: TAG_match_def split: if_splits)
  then obtain d rest' where r2: "r2 = d # rest'" by (cases r2) auto
  with assms Cons ri rf have "rest' = rest"
    by (auto simp: TAG_match_def split: if_splits)
  with a b r2 Cons show ?thesis by simp
qed


text \<open>
  \<open>TAG.split\<close>: the texts between the leftmost matches of the pattern, alternating with
  the matched tags (the pattern has one group, the whole tag).
\<close>

lemma TAG_split_aux_decreases:
  assumes "TAG_match (c # cs) = Some x2" and "(g, rest) = x2"
  shows "(([], rest), (acc, c # cs)) \<in> measure (\<lambda>(acc, s). length s)"
proof -
  from assms have "TAG_match (c # cs) = Some (g, rest)" by simp
  then have "length rest < length (c # cs)" by (rule TAG_match_shorter)
  then show ?thesis by simp
qed

function TAG_split_aux :: "string \<Rightarrow> string \<Rightarrow> string list" where
  "TAG_split_aux acc [] = [rev acc]"
| "TAG_split_aux acc (c # cs) =
     (case TAG_match (c # cs) of
        None \<Rightarrow> TAG_split_aux (c # acc) cs
      | Some (g, rest) \<Rightarrow>
          rev acc # take (length (c # cs) - length rest) (c # cs) # TAG_split_aux [] rest)"
  by pat_completeness auto
termination
  apply (relation "measure (\<lambda>(acc, s). length s)")
    apply simp
   apply simp
  apply (rule TAG_split_aux_decreases; assumption)
  done

definition TAG_split :: "string \<Rightarrow> string list" where
  "TAG_split s = TAG_split_aux [] s"

text \<open>The leaves of a template: what \<open>Template.TagSplit\<close> yields.\<close>

datatype leaf = TemplateText string | TagNode TemplateTag

text \<open>
  \<open>Template.TagSplit\<close>: the pieces at odd positions are parsed as tags, the non-empty
  pieces at even positions are texts.
\<close>

fun TagSplit_pieces :: "bool \<Rightarrow> string list \<Rightarrow> leaf list result" where
  "TagSplit_pieces is_odd [] = Inr []"
| "TagSplit_pieces is_odd (piece # pieces) =
     (if is_odd then
        (case FromString piece of
           Inl e \<Rightarrow> Inl e
         | Inr t \<Rightarrow> (case TagSplit_pieces False pieces of
                       Inl e \<Rightarrow> Inl e
                     | Inr ls \<Rightarrow> Inr (TagNode t # ls)))
      else if piece \<noteq> [] then
        (case TagSplit_pieces True pieces of
           Inl e \<Rightarrow> Inl e
         | Inr ls \<Rightarrow> Inr (TemplateText piece # ls))
      else TagSplit_pieces True pieces)"

definition TagSplit :: "string \<Rightarrow> leaf list result" where
  "TagSplit template = TagSplit_pieces False (TAG_split template)"

text \<open>
  The pattern \<open>FUNCTION\<close>, \<open>\{\{\s*(.*?)\s*\}\}\<close>: after the braces and all white space
  that follows, the group is the shortest text without a line feed after which optional
  white space and the closing braces stand. (Leaving some of the leading white space to
  the group opens no match that the greedy choice misses.)
\<close>

definition closing_braces :: "string \<Rightarrow> string option" where
  "closing_braces s =
     (case dropWhile is_space s of
        a # b # rest \<Rightarrow> if a = CHR ''}'' \<and> b = CHR ''}'' then Some rest else None
      | _ \<Rightarrow> None)"

fun scan_directive :: "string \<Rightarrow> string \<Rightarrow> (string \<times> string) option" where
  "scan_directive acc [] = None"
| "scan_directive acc (c # cs) =
     (case closing_braces (c # cs) of
        Some rest \<Rightarrow> Some (rev acc, rest)
      | None \<Rightarrow> if c = CHR 0x0A then None else scan_directive (c # acc) cs)"

definition FUNCTION_match :: "string \<Rightarrow> (string \<times> string) option" where
  "FUNCTION_match s =
     (case s of
        a # b # r \<Rightarrow>
          if a = CHR ''{'' \<and> b = CHR ''{'' then scan_directive [] (dropWhile is_space r) else None
      | _ \<Rightarrow> None)"

lemma closing_braces_shorter:
  assumes "closing_braces s = Some rest"
  shows "length rest < length s"
proof -
  from assms obtain x y where "dropWhile is_space s = x # y # rest"
    by (auto simp: closing_braces_def split: list.splits if_splits)
  then have "length rest < length (dropWhile is_space s)" by simp
  also have "\<dots> \<le> length s" by (rule length_dropWhile_le)
  finally show ?thesis .
qed

lemma scan_directive_shorter: "scan_directive acc s = Some (d, rest) \<Longrightarrow> length rest < length s"
proof (induction s arbitrary: acc)
  case Nil
  then show ?case by simp
next
  case (Cons c cs)
  show ?case
  proof (cases "closing_braces (c # cs)")
    case (Some r)
    with Cons.prems have "r = rest" by simp
    with Some show ?thesis using closing_braces_shorter [of "c # cs" rest] by simp
  next
    case None
    with Cons.prems have "scan_directive (c # acc) cs = Some (d, rest)"
      by (simp split: if_splits)
    then have "length rest < length cs" by (rule Cons.IH)
    then show ?thesis by simp
  qed
qed

lemma FUNCTION_match_shorter:
  assumes "FUNCTION_match s = Some (d, rest)"
  shows "length rest < length s"
proof -
  from assms obtain r where s: "s = CHR ''{'' # CHR ''{'' # r"
    and sc: "scan_directive [] (dropWhile is_space r) = Some (d, rest)"
    by (auto simp: FUNCTION_match_def split: list.splits if_splits)
  from sc have "length rest < length (dropWhile is_space r)"
    by (rule scan_directive_shorter)
  also have "\<dots> \<le> length r" by (rule length_dropWhile_le)
  finally show ?thesis using s by simp
qed

lemma FUNCTION_split_aux_decreases:
  assumes "FUNCTION_match (c # cs) = Some x2" and "(d, rest) = x2"
  shows "(([], rest), (acc, c # cs)) \<in> measure (\<lambda>(acc, s). length s)"
proof -
  from assms have "FUNCTION_match (c # cs) = Some (d, rest)" by simp
  then have "length rest < length (c # cs)" by (rule FUNCTION_match_shorter)
  then show ?thesis by simp
qed

text \<open>\<open>FUNCTION.split\<close>: texts at even positions, directives at odd positions.\<close>

function FUNCTION_split_aux :: "string \<Rightarrow> string \<Rightarrow> string list" where
  "FUNCTION_split_aux acc [] = [rev acc]"
| "FUNCTION_split_aux acc (c # cs) =
     (case FUNCTION_match (c # cs) of
        None \<Rightarrow> FUNCTION_split_aux (c # acc) cs
      | Some (d, rest) \<Rightarrow> rev acc # d # FUNCTION_split_aux [] rest)"
  by pat_completeness auto
termination
  apply (relation "measure (\<lambda>(acc, s). length s)")
    apply simp
   apply simp
  apply (rule FUNCTION_split_aux_decreases; assumption)
  done

definition FUNCTION_split :: "string \<Rightarrow> string list" where
  "FUNCTION_split s = FUNCTION_split_aux [] s"


section \<open>Resolution of a tag\<close>

lemma GetIndex_not_KeyError: "GetIndex h n \<noteq> Inl KeyError"
  by (auto simp: GetIndex_def Let_def is_LookupError_def split: sum.splits if_splits)

lemma reduce_indices_not_KeyError: "reduce_indices v is \<noteq> Inl KeyError"
proof (induction "is" arbitrary: v)
  case Nil
  then show ?case by simp
next
  case (Cons i "is")
  then show ?case
    using GetIndex_not_KeyError [of v i] by (auto split: sum.splits)
qed

lemma GetValue_absent: "kwds (name t) = None \<Longrightarrow> GetValue t kwds = Inl TemplateNameError"
  by (simp add: GetValue_def)

lemma GetValue_present:
  "kwds (name t) = Some v \<Longrightarrow> GetValue t kwds = reduce_indices v (indices t)"
  using reduce_indices_not_KeyError [of v "indices t"]
  by (auto simp: GetValue_def split: sum.splits)

text \<open>
  Attribute access reaches the data attributes of a built-in value, and \<open>int\<close> rejects a
  needle that \<open>str.isdigit\<close> accepts but that is not decimal.
\<close>

lemma GetIndex_examples:
  "GetIndex (PInt 5) ''real'' = Inr (PInt 5)"
  "GetIndex (PInt 5) ''title'' = Inl (TemplateKeyError ''title'')"
  "GetIndex (PDict [(KStr ''title'', PStr ''a'')]) ''title'' = Inr (PStr ''a'')"
  "GetIndex (PDict [(KStr ''0'', PStr ''a'')]) ''0'' = Inr (PStr ''a'')"
  "GetIndex (PDict []) ''keys'' = Inl Unmodelled"
  "GetIndex (PList [PInt 7]) ''0'' = Inr (PInt 7)"
  "GetIndex (PList [PInt 7]) [CHR 0xB2] = Inl ValueError"
  "GetIndex (PObj ''<o>'' [(''title'', PStr ''a'')]) ''title'' = Inr (PStr ''a'')"
  by (simp_all add: GetIndex_def getattr_def int_attr_def method_or_missing_def
      is_special_name_def int_methods_def dict_methods_def isdigit_def is_digit_def ord_def
      int_of_digits_def max_str_digits_def nat_of_digits_def digit_val_def seq_index_def
      lookup_key_def is_TypeError_def is_LookupError_def)

lemmas eval_tag_defs =
  Tag_Parse_def GetValue_def GetIndex_def isdigit_def is_digit_def ord_def nat_of_digits_def
  int_of_digits_def max_str_digits_def
  digit_val_def seq_index_def lookup_key_def is_TypeError_def is_LookupError_def tag_str_def
  ApplyFunction_def translate_error_def FUNC_CLOSURE_match_def is_word_def is_alpha_def
  call_registered_def call_closure_def TAG_FUNCTIONS_def unary_def call_def

text \<open>
  C2. Rendering a tag whose name is absent from the replacements, or one of whose index
  projections fails with the module's key error, gives the tag's own text (the bracket, the
  name, every index after a colon, every function after a bar, the bracket) and no error.
  Every other error of the node reaches the caller: a resolution error that is neither of
  the two, an error of the function pipeline, and an error of the default function.
\<close>

theorem Tag_Parse_error_recovery:
  "(kwds (name t) = None \<longrightarrow> Tag_Parse reg t kwds = Inr (tag_str t))
   \<and> (kwds (name t) = Some v \<and> reduce_indices v (indices t) = Inl (TemplateKeyError n)
        \<longrightarrow> Tag_Parse reg t kwds = Inr (tag_str t))
   \<and> (GetValue t kwds = Inl e \<and> e \<noteq> TemplateNameError \<and> \<not> is_TemplateKeyError e
        \<longrightarrow> Tag_Parse reg t kwds = Inl e)
   \<and> (GetValue t kwds = Inr v \<and> tag_functions t \<noteq> []
        \<and> apply_functions reg (tag_functions t) v = Inl e
        \<longrightarrow> Tag_Parse reg t kwds = Inl e)
   \<and> (GetValue t kwds = Inr v \<and> tag_functions t = [] \<and> \<not> is_Basesafestring v
        \<and> call_registered reg ''default'' v = Inl e
        \<longrightarrow> Tag_Parse reg t kwds = Inl e)
   \<and> tag_str t = ''['' @ name t @ concat (map (\<lambda>i. '':'' @ i) (indices t))
        @ concat (map (\<lambda>f. ''|'' @ f) (tag_functions t)) @ '']''"
proof (intro conjI impI)
  assume "kwds (name t) = None"
  then show "Tag_Parse reg t kwds = Inr (tag_str t)"
    by (simp add: Tag_Parse_def GetValue_absent)
next
  assume "kwds (name t) = Some v \<and> reduce_indices v (indices t) = Inl (TemplateKeyError n)"
  then show "Tag_Parse reg t kwds = Inr (tag_str t)"
    by (simp add: Tag_Parse_def GetValue_present)
next
  assume "GetValue t kwds = Inl e \<and> e \<noteq> TemplateNameError \<and> \<not> is_TemplateKeyError e"
  then show "Tag_Parse reg t kwds = Inl e" by (simp add: Tag_Parse_def)
next
  assume "GetValue t kwds = Inr v \<and> tag_functions t \<noteq> []
        \<and> apply_functions reg (tag_functions t) v = Inl e"
  then show "Tag_Parse reg t kwds = Inl e" by (simp add: Tag_Parse_def)
next
  assume "GetValue t kwds = Inr v \<and> tag_functions t = [] \<and> \<not> is_Basesafestring v
        \<and> call_registered reg ''default'' v = Inl e"
  then show "Tag_Parse reg t kwds = Inl e" by (simp add: Tag_Parse_def)
next
  show "tag_str t = ''['' @ name t @ concat (map (\<lambda>i. '':'' @ i) (indices t))
        @ concat (map (\<lambda>f. ''|'' @ f) (tag_functions t)) @ '']''"
    by (simp add: tag_str_def)
qed

theorem Tag_Parse_error_recovery_witness:
  "Tag_Parse TAG_FUNCTIONS \<lparr>name = ''x'', indices = [], tag_functions = []\<rparr> Map.empty
     = Inr ''[x]''
   \<and> Tag_Parse TAG_FUNCTIONS
       \<lparr>name = ''page'', indices = [''a-b'', ''0''], tag_functions = [''url'', ''f(1, 2)'']\<rparr>
       Map.empty = Inr ''[page:a-b:0|url|f(1, 2)]''
   \<and> Tag_Parse TAG_FUNCTIONS \<lparr>name = ''x'', indices = [''0''], tag_functions = [''raw'']\<rparr>
       [''x'' \<mapsto> PList []] = Inr ''[x:0|raw]''
   \<and> Tag_Parse TAG_FUNCTIONS \<lparr>name = ''x'', indices = [''title''], tag_functions = []\<rparr>
       [''x'' \<mapsto> PInt 5] = Inr ''[x:title]''
   \<and> Tag_Parse TAG_FUNCTIONS \<lparr>name = ''x'', indices = [''0''], tag_functions = []\<rparr>
       [''x'' \<mapsto> PNone] = Inl TypeError
   \<and> Tag_Parse TAG_FUNCTIONS \<lparr>name = ''x'', indices = [[CHR 0xB2]], tag_functions = []\<rparr>
       [''x'' \<mapsto> PList [PInt 7]] = Inl ValueError
   \<and> Tag_Parse TAG_FUNCTIONS \<lparr>name = ''x'', indices = [], tag_functions = [''nope'']\<rparr>
       [''x'' \<mapsto> PNone] = Inl TemplateNameError
   \<and> Tag_Parse TAG_FUNCTIONS \<lparr>name = ''x'', indices = [], tag_functions = [''len'']\<rparr>
       [''x'' \<mapsto> PInt 5] = Inl TemplateTypeError
   \<and> Tag_Parse Map.empty \<lparr>name = ''x'', indices = [], tag_functions = []\<rparr>
       [''x'' \<mapsto> PNone] = Inl KeyError"
proof (intro conjI)
  let ?t0 = "\<lparr>name = ''x'', indices = [], tag_functions = []\<rparr>"
  let ?t1 = "\<lparr>name = ''x'', indices = [''0''], tag_functions = []\<rparr>"
  let ?t2 = "\<lparr>name = ''x'', indices = [], tag_functions = [''nope'']\<rparr>"
  let ?t3 = "\<lparr>name = ''page'', indices = [''a-b'', ''0''],
      tag_functions = [''url'', ''f(1, 2)'']\<rparr>"
  let ?t4 = "\<lparr>name = ''x'', indices = [''0''], tag_functions = [''raw'']\<rparr>"
  let ?t5 = "\<lparr>name = ''x'', indices = [''title''], tag_functions = []\<rparr>"
  let ?t6 = "\<lparr>name = ''x'', indices = [[CHR 0xB2]], tag_functions = []\<rparr>"
  let ?t7 = "\<lparr>name = ''x'', indices = [], tag_functions = [''len'']\<rparr>"
  show "Tag_Parse TAG_FUNCTIONS ?t0 Map.empty = Inr ''[x]''"
    using Tag_Parse_error_recovery [of Map.empty ?t0 TAG_FUNCTIONS]
    by simp
  show "Tag_Parse TAG_FUNCTIONS ?t3 Map.empty = Inr ''[page:a-b:0|url|f(1, 2)]''"
    using Tag_Parse_error_recovery [of Map.empty ?t3 TAG_FUNCTIONS]
    by simp
  show "Tag_Parse TAG_FUNCTIONS ?t4 [''x'' \<mapsto> PList []] = Inr ''[x:0|raw]''"
    using Tag_Parse_error_recovery [of "[''x'' \<mapsto> PList []]" ?t4 TAG_FUNCTIONS "PList []" "''0''"]
    by (simp add: GetIndex_def isdigit_def is_digit_def ord_def nat_of_digits_def
        int_of_digits_def max_str_digits_def digit_val_def seq_index_def is_LookupError_def)
  show "Tag_Parse TAG_FUNCTIONS ?t5 [''x'' \<mapsto> PInt 5] = Inr ''[x:title]''"
    using Tag_Parse_error_recovery [of "[''x'' \<mapsto> PInt 5]" ?t5 TAG_FUNCTIONS "PInt 5" "''title''"]
    by (simp add: GetIndex_def isdigit_def is_digit_def ord_def is_TypeError_def getattr_def
        is_special_name_def int_attr_def int_methods_def is_LookupError_def)
  show "Tag_Parse TAG_FUNCTIONS ?t1 [''x'' \<mapsto> PNone] = Inl TypeError"
    using Tag_Parse_error_recovery [of "[''x'' \<mapsto> PNone]" ?t1 TAG_FUNCTIONS _ _ TypeError]
    by (simp add: GetValue_def GetIndex_def isdigit_def is_digit_def ord_def nat_of_digits_def
        int_of_digits_def max_str_digits_def digit_val_def is_LookupError_def)
  show "Tag_Parse TAG_FUNCTIONS ?t6 [''x'' \<mapsto> PList [PInt 7]] = Inl ValueError"
    using Tag_Parse_error_recovery [of "[''x'' \<mapsto> PList [PInt 7]]" ?t6 TAG_FUNCTIONS _ _ ValueError]
    by (simp add: GetValue_def GetIndex_def isdigit_def is_digit_def ord_def
        int_of_digits_def max_str_digits_def is_LookupError_def)
  show "Tag_Parse TAG_FUNCTIONS ?t2 [''x'' \<mapsto> PNone] = Inl TemplateNameError"
    using Tag_Parse_error_recovery [of "[''x'' \<mapsto> PNone]" ?t2 TAG_FUNCTIONS PNone _ TemplateNameError]
    by (simp add: eval_tag_defs)
  show "Tag_Parse TAG_FUNCTIONS ?t7 [''x'' \<mapsto> PInt 5] = Inl TemplateTypeError"
    using Tag_Parse_error_recovery [of "[''x'' \<mapsto> PInt 5]" ?t7 TAG_FUNCTIONS "PInt 5" _ TemplateTypeError]
    by (simp add: eval_tag_defs fn_len_def)
  show "Tag_Parse Map.empty ?t0 [''x'' \<mapsto> PNone] = Inl KeyError"
    using Tag_Parse_error_recovery [of "[''x'' \<mapsto> PNone]" ?t0 Map.empty PNone _ KeyError]
    by (simp add: GetValue_def call_registered_def)
qed

text \<open>
  C3. For a tag without functions whose value resolves: a value that is not a safe string
  is passed to the registry's \<open>default\<close> function and the text of the result is rendered;
  with the module's initial registry that is the HTML-escaped text of the value, marked
  HTML-safe. A value that is a safe string is rendered as it is, whatever the registry
  holds.
\<close>

theorem Tag_Parse_default_rule:
  "GetValue t kwds = Inr v \<and> tag_functions t = [] \<longrightarrow>
     (\<not> is_Basesafestring v \<longrightarrow>
        Tag_Parse reg t kwds = map_sum id py_str (call_registered reg ''default'' v)
        \<and> call_registered TAG_FUNCTIONS ''default'' v = Inr (PSafe HTMLsafe (HtmlEscape (py_str v)))
        \<and> Tag_Parse TAG_FUNCTIONS t kwds = Inr (HtmlEscape (py_str v)))
     \<and> (is_Basesafestring v \<longrightarrow> Tag_Parse reg t kwds = Inr (py_str v))"
proof (intro impI conjI)
  assume a: "GetValue t kwds = Inr v \<and> tag_functions t = []"
  { assume b: "\<not> is_Basesafestring v"
    from a b show "Tag_Parse reg t kwds = map_sum id py_str (call_registered reg ''default'' v)"
      by (simp add: Tag_Parse_def split: sum.splits)
    from b show d: "call_registered TAG_FUNCTIONS ''default'' v
        = Inr (PSafe HTMLsafe (HtmlEscape (py_str v)))"
      by (cases v)
         (simp_all add: call_registered_def TAG_FUNCTIONS_def unary_def call_def html_add_def)
    from a b d show "Tag_Parse TAG_FUNCTIONS t kwds = Inr (HtmlEscape (py_str v))"
      by (simp add: Tag_Parse_def py_str_def) }
  { assume "is_Basesafestring v"
    with a show "Tag_Parse reg t kwds = Inr (py_str v)"
      by (simp add: Tag_Parse_def) }
qed

theorem Tag_Parse_default_rule_witness:
  "Tag_Parse TAG_FUNCTIONS \<lparr>name = ''s'', indices = [], tag_functions = []\<rparr>
     [''s'' \<mapsto> PStr ''<b>''] = Inr ''&lt;b&gt;''
   \<and> Tag_Parse Map.empty \<lparr>name = ''s'', indices = [], tag_functions = []\<rparr>
     [''s'' \<mapsto> PSafe HTMLsafe ''<b>''] = Inr ''<b>''"
proof (intro conjI)
  let ?t = "\<lparr>name = ''s'', indices = [], tag_functions = []\<rparr>"
  show "Tag_Parse TAG_FUNCTIONS ?t [''s'' \<mapsto> PStr ''<b>''] = Inr ''&lt;b&gt;''"
    using Tag_Parse_default_rule [of ?t "[''s'' \<mapsto> PStr ''<b>'']" "PStr ''<b>''" TAG_FUNCTIONS]
    by (simp add: GetValue_def py_str_def HtmlEscape_def)
  show "Tag_Parse Map.empty ?t [''s'' \<mapsto> PSafe HTMLsafe ''<b>''] = Inr ''<b>''"
    using Tag_Parse_default_rule [of ?t "[''s'' \<mapsto> PSafe HTMLsafe ''<b>'']"
        "PSafe HTMLsafe ''<b>''" Map.empty]
    by (simp add: GetValue_def py_str_def)
qed

end
